theory Spec2Isabelle
  imports Complex_Main "HOL-Library.Word"
begin

section \<open>JavaScript values\<close>

text \<open>
  The helper functions take values of type \<^verbatim>\<open>unknown\<close>, so the embedding starts
  with the value universe of the language. A number is an IEEE double:
  the functions verified here only compare numbers and never compute with them, so no
  rounding occurs and a finite double is represented by the real number it denotes
  (the two zeros, which \<^verbatim>\<open>===\<close> identifies, are one value). Objects, arrays and
  functions are references into a store; \<^verbatim>\<open>===\<close> on them is identity.
\<close>

type_synonym addr = nat

datatype number = NaN | NegInf | Fin real | PosInf

datatype val =
    Undefined
  | Null
  | Bool bool
  | Num number
  | Str string
  | BigInt int
  | Sym nat
  | Func addr
  | Ref addr

datatype type_tag =
  T_undefined | T_object | T_boolean | T_number | T_string | T_bigint | T_symbol | T_function

fun typeof :: "val \<Rightarrow> type_tag" where
  "typeof Undefined = T_undefined"
| "typeof Null = T_object"
| "typeof (Bool b) = T_boolean"
| "typeof (Num n) = T_number"
| "typeof (Str s) = T_string"
| "typeof (BigInt i) = T_bigint"
| "typeof (Sym s) = T_symbol"
| "typeof (Func f) = T_function"
| "typeof (Ref a) = T_object"

text \<open>The order of numbers: every comparison with \<open>NaN\<close> is false.\<close>

fun num_le :: "number \<Rightarrow> number \<Rightarrow> bool" where
  "num_le NaN b = False"
| "num_le a NaN = False"
| "num_le NegInf b = True"
| "num_le a PosInf = True"
| "num_le (Fin x) (Fin y) = (x \<le> y)"
| "num_le (Fin x) NegInf = False"
| "num_le PosInf b = False"

fun num_lt :: "number \<Rightarrow> number \<Rightarrow> bool" where
  "num_lt NaN b = False"
| "num_lt a NaN = False"
| "num_lt a b = (num_le a b \<and> a \<noteq> b)"

text \<open>Strict equality \<^verbatim>\<open>x === y\<close>: \<open>NaN\<close> differs from itself, references are compared
  by address, everything else by content.\<close>

fun strict_eq :: "val \<Rightarrow> val \<Rightarrow> bool" where
  "strict_eq (Num a) (Num b) = (a \<noteq> NaN \<and> b \<noteq> NaN \<and> a = b)"
| "strict_eq x y = (x = y)"

text \<open>\<^verbatim>\<open>!v\<close> is false exactly on the truthy values.\<close>

fun truthy :: "val \<Rightarrow> bool" where
  "truthy Undefined = False"
| "truthy Null = False"
| "truthy (Bool b) = b"
| "truthy (Num n) = (n \<noteq> NaN \<and> n \<noteq> Fin 0)"
| "truthy (Str s) = (s \<noteq> [])"
| "truthy (BigInt i) = (i \<noteq> 0)"
| "truthy (Sym s) = True"
| "truthy (Func f) = True"
| "truthy (Ref a) = True"

text \<open>What a call can throw: the two built-in errors that occur below, or a value thrown by
  code of the program.\<close>

datatype error = TypeError | RangeError | Exception val

section \<open>Objects and the store\<close>

text \<open>
  A property key is a string or a symbol. A property is a data property, which holds a
  value and is taken to be writable, or an accessor, whose getter is run by every read:
  the model has the getters without effects, which either return a value or throw, and
  says of an accessor whether it has a setter. An object lists its own
  properties in the order of \<^verbatim>\<open>Reflect.ownKeys\<close>, each with its enumerable flag;
  \<open>inherited\<close> holds the properties that are reachable through the prototype chain only.
  \<open>is_array\<close> is what \<^verbatim>\<open>Array.isArray\<close> reports, \<open>proto\<close> what
  \<^verbatim>\<open>Reflect.getPrototypeOf\<close> returns, \<open>builtin_tag\<close> the tag that
  \<^verbatim>\<open>Object.prototype.toString\<close> has for the kind of object, and \<open>instance_of_Date\<close>
  whether \<^verbatim>\<open>Date.prototype\<close> is on the prototype chain. Function objects have their
  properties in the store as well. Proxies are not modelled.
\<close>

datatype pkey = StrKey string | SymKey nat

datatype slot = Data val | Accessor "error + val" bool

datatype property = Prop (pname: pkey) (pslot: slot) (enumerable: bool)

datatype prototype = ObjectPrototype | ArrayPrototype | OtherPrototype addr | NullPrototype

record obj =
  own :: "property list"
  inherited :: "(pkey \<times> slot) list"
  is_array :: bool
  proto :: prototype
  builtin_tag :: string
  instance_of_Date :: bool

type_synonym heap = "addr \<Rightarrow> obj"

definition get_own :: "obj \<Rightarrow> pkey \<Rightarrow> slot option" where
  "get_own ob k = map_option pslot (find (\<lambda>p. pname p = k) (own ob))"

text \<open>Reading a property: the value of a data property, the outcome of the getter of an
  accessor.\<close>

fun read_slot :: "slot \<Rightarrow> error + val" where
  "read_slot (Data v) = Inr v"
| "read_slot (Accessor outcome setter) = outcome"

text \<open>\<^verbatim>\<open>Object.keys(o)\<close>: the own enumerable string keys.\<close>

definition Object_keys :: "heap \<Rightarrow> val \<Rightarrow> pkey list" where
  "Object_keys h v =
     (case v of
        Ref a \<Rightarrow> map pname (filter (\<lambda>p. enumerable p \<and> (case pname p of StrKey s \<Rightarrow> True | SymKey n \<Rightarrow> False)) (own (h a)))
      | _ \<Rightarrow> [])"

text \<open>\<^verbatim>\<open>Reflect.ownKeys(o)\<close>: every own key, enumerable or not, symbols included.\<close>

definition Reflect_ownKeys :: "heap \<Rightarrow> addr \<Rightarrow> pkey list" where
  "Reflect_ownKeys h a = map pname (own (h a))"

text \<open>\<^verbatim>\<open>Reflect.has(o, key)\<close> is the \<^verbatim>\<open>in\<close> operator: own or inherited.\<close>

definition Reflect_has :: "heap \<Rightarrow> addr \<Rightarrow> pkey \<Rightarrow> bool" where
  "Reflect_has h a k = (k \<in> set (map pname (own (h a))) \<or> k \<in> set (map fst (inherited (h a))))"

text \<open>\<^verbatim>\<open>Reflect.get(o, key)\<close>: the own property, else the inherited one, else
  \<^verbatim>\<open>undefined\<close>; a getter that throws makes the read throw.\<close>

definition Reflect_get :: "heap \<Rightarrow> addr \<Rightarrow> pkey \<Rightarrow> error + val" where
  "Reflect_get h a k =
     (case get_own (h a) k of
        Some s \<Rightarrow> read_slot s
      | None \<Rightarrow> (case map_of (inherited (h a)) k of Some s \<Rightarrow> read_slot s | None \<Rightarrow> Inr Undefined))"

section \<open>Validation and type checking\<close>

subsection \<open>isEquals\<close>

text \<open>
  \<^verbatim>\<open>isEquals\<close> calls itself on the property values of its arguments. The store may hold
  cyclic structures, so the recursion is bounded by the depth of the call stack that is
  available: \<open>isEquals n\<close> is the call with room for \<open>n\<close> nested activations. \<open>None\<close> says
  that the call returned no value: the stack was exhausted (the engine then throws a
  \<^verbatim>\<open>RangeError\<close>) or a getter threw. \<open>for_keys\<close> is the
  \<^verbatim>\<open>for (const key of xKeys)\<close> loop with its early \<^verbatim>\<open>return false\<close>; \<open>rec\<close> is the
  recursive call, whose arguments are read from left to right. After the \<^verbatim>\<open>null\<close> test
  both arguments are references (the last case of the model is not reachable).
\<close>

fun for_keys :: "(val \<Rightarrow> val \<Rightarrow> bool option) \<Rightarrow> heap \<Rightarrow> addr \<Rightarrow> addr \<Rightarrow> pkey list \<Rightarrow> bool option" where
  "for_keys rec h x y [] = Some True"
| "for_keys rec h x y (key # keys) =
     (if \<not> Reflect_has h y key then Some False
      else (case Reflect_get h x key of
              Inl e \<Rightarrow> None
            | Inr u \<Rightarrow>
                (case Reflect_get h y key of
                   Inl e \<Rightarrow> None
                 | Inr v \<Rightarrow>
                     (case rec u v of
                        None \<Rightarrow> None
                      | Some False \<Rightarrow> Some False
                      | Some True \<Rightarrow> for_keys rec h x y keys))))"

primrec isEquals :: "nat \<Rightarrow> heap \<Rightarrow> val \<Rightarrow> val \<Rightarrow> bool option" where
  "isEquals 0 h x y = None"
| "isEquals (Suc n) h x y =
     (if strict_eq x y then Some True
      else if typeof x \<noteq> T_object \<or> typeof y \<noteq> T_object
        then Some (if typeof x = typeof y then strict_eq x y else False)
      else if x = Null \<or> y = Null then Some False
      else (case (x, y) of
              (Ref a, Ref b) \<Rightarrow>
                (let xKeys = Object_keys h x; yKeys = Object_keys h y in
                 if length xKeys \<noteq> length yKeys then Some False
                 else for_keys (isEquals n h) h a b xKeys)
            | _ \<Rightarrow> Some False))"




subsection \<open>Type predicates\<close>


definition isNil :: "val \<Rightarrow> bool" where
  "isNil v = (v = Null)"


definition Array_isArray :: "heap \<Rightarrow> val \<Rightarrow> bool" where
  "Array_isArray h v = (case v of Ref a \<Rightarrow> is_array (h a) | _ \<Rightarrow> False)"

definition isObject :: "heap \<Rightarrow> val \<Rightarrow> bool" where
  "isObject h v = (\<not> isNil v \<and> typeof v = T_object \<and> \<not> Array_isArray h v)"

definition Reflect_getPrototypeOf :: "heap \<Rightarrow> val \<Rightarrow> prototype" where
  "Reflect_getPrototypeOf h v = (case v of Ref a \<Rightarrow> proto (h a) | _ \<Rightarrow> NullPrototype)"

definition isPlainObject :: "heap \<Rightarrow> val \<Rightarrow> bool" where
  "isPlainObject h v = (isObject h v \<and> Reflect_getPrototypeOf h v = ObjectPrototype)"

definition isFunction :: "val \<Rightarrow> bool" where
  "isFunction fn = (typeof fn = T_function)"


definition isString :: "val \<Rightarrow> bool" where
  "isString str = (typeof str = T_string)"


text \<open>
  \<^verbatim>\<open>String.prototype.trim\<close> strips white space and line terminators from both ends.
  A \<open>string\<close> is a list of 8-bit characters, so the strings of the model are those whose
  code units are below 256; among these the stripped ones are TAB, LF, VT, FF, CR, SPACE
  and NO-BREAK SPACE.
\<close>

definition is_white_space :: "char \<Rightarrow> bool" where
  "is_white_space c = (of_char c \<in> {9, 10, 11, 12, 13, 32, 160 :: nat})"

definition trim :: "string \<Rightarrow> string" where
  "trim s = rev (dropWhile is_white_space (rev (dropWhile is_white_space s)))"

text \<open>The \<^verbatim>\<open>length\<close> of an array is an own data property, so the read of it returns.\<close>

definition isEmpty :: "heap \<Rightarrow> val \<Rightarrow> bool" where
  "isEmpty h v =
     (if Array_isArray h v then
        (case v of
           Ref a \<Rightarrow>
             (case Reflect_get h a (StrKey ''length'') of
                Inr n \<Rightarrow> strict_eq n (Num (Fin 0))
              | Inl e \<Rightarrow> False)
         | _ \<Rightarrow> False)
      else if isPlainObject h v then length (Object_keys h v) = 0
      else if isString v then (case v of Str s \<Rightarrow> length (trim s) = 0 | _ \<Rightarrow> False)
      else False)"







section \<open>Object manipulation\<close>

text \<open>
  The keys passed to \<^verbatim>\<open>pick\<close> and \<^verbatim>\<open>omit\<close> have the type \<^verbatim>\<open>keyof O\<close>: strings,
  symbols and numbers. The number keys of the model are the array indices, integers below
  \<open>2\<^sup>3\<^sup>2\<close>, which the language writes with all their decimal digits.
  \<^verbatim>\<open>Reflect.has\<close>, \<^verbatim>\<open>Reflect.get\<close> and the assignment \<^verbatim>\<open>value[key] = \<dots>\<close> convert the
  key to a property key, \<^verbatim>\<open>keys.includes\<close> compares the values as they are.
\<close>

datatype key_arg = KeyStr string | KeyNum "32 word" | KeySym nat

fun decimal :: "nat \<Rightarrow> string" where
  "decimal n =
     (if n < 10 then [''0123456789'' ! n] else decimal (n div 10) @ [''0123456789'' ! (n mod 10)])"

declare decimal.simps [simp del]

fun ToPropertyKey :: "key_arg \<Rightarrow> pkey" where
  "ToPropertyKey (KeyStr s) = StrKey s"
| "ToPropertyKey (KeyNum n) = StrKey (decimal (unat n))"
| "ToPropertyKey (KeySym n) = SymKey n"

text \<open>The elements of \<^verbatim>\<open>Reflect.ownKeys(target)\<close> as values: strings and symbols.\<close>

fun key_value :: "pkey \<Rightarrow> key_arg" where
  "key_value (StrKey s) = KeyStr s"
| "key_value (SymKey n) = KeySym n"

text \<open>
  The store with its allocation pointer: the addresses below \<open>fresh\<close> are in use.
  \<open>object_prototype\<close> lists the properties of \<^verbatim>\<open>Object.prototype\<close>, which a new
  \<^verbatim>\<open>{}\<close> inherits, and \<open>array_prototype\<close> those a new array inherits. In the language
  as it is defined, \<^verbatim>\<open>__proto__\<close> is the one accessor of \<^verbatim>\<open>Object.prototype\<close>.
\<close>

record store =
  heap :: heap
  fresh :: addr
  object_prototype :: "(pkey \<times> slot) list"
  array_prototype :: "(pkey \<times> slot) list"

definition new_object :: "store \<Rightarrow> obj" where
  "new_object st = \<lparr>own = [], inherited = object_prototype st, is_array = False,
                     proto = ObjectPrototype, builtin_tag = ''Object'', instance_of_Date = False\<rparr>"

text \<open>The properties that an object whose prototype is the object at \<open>a\<close> inherits.\<close>

definition visible_properties :: "heap \<Rightarrow> addr \<Rightarrow> (pkey \<times> slot) list" where
  "visible_properties h a = map (\<lambda>p. (pname p, pslot p)) (own (h a)) @ inherited (h a)"

text \<open>
  \<^verbatim>\<open>value[key] = v\<close> on the accumulator of \<^verbatim>\<open>pick\<close>, an object whose own properties
  are the data properties that earlier assignments made. An own property keeps its place
  and takes the value. Where the key is inherited as an accessor the assignment makes no
  own property: it runs the setter, and in the strict mode of a module it throws a
  \<^verbatim>\<open>TypeError\<close> when there is none. The setter of \<^verbatim>\<open>__proto__\<close> replaces the
  prototype when the value is an object or \<^verbatim>\<open>null\<close> and does nothing otherwise (other
  setters are taken to leave the object as it is). In every other case a new enumerable
  data property is added; the model lists it last (the place that the language gives to
  an index key among the own keys is not modelled, and nothing below depends on it).
\<close>

definition assign :: "heap \<Rightarrow> obj \<Rightarrow> pkey \<Rightarrow> val \<Rightarrow> error + obj" where
  "assign h ob k v =
     (if k \<in> set (map pname (own ob))
      then Inr (ob\<lparr>own := map (\<lambda>p. if pname p = k then Prop k (Data v) (enumerable p) else p) (own ob)\<rparr>)
      else (case map_of (inherited ob) k of
              Some (Accessor g setter) \<Rightarrow>
                (if \<not> setter then Inl TypeError
                 else if k = StrKey ''__proto__'' then
                   (case v of
                      Ref a \<Rightarrow> Inr (ob\<lparr>inherited := visible_properties h a, proto := OtherPrototype a\<rparr>)
                    | Func a \<Rightarrow> Inr (ob\<lparr>inherited := visible_properties h a, proto := OtherPrototype a\<rparr>)
                    | Null \<Rightarrow> Inr (ob\<lparr>inherited := [], proto := NullPrototype\<rparr>)
                    | _ \<Rightarrow> Inr ob)
                 else Inr ob)
            | _ \<Rightarrow> Inr (ob\<lparr>own := own ob @ [Prop k (Data v) True]\<rparr>)))"

text \<open>The callback of the \<^verbatim>\<open>reduce\<close> in \<^verbatim>\<open>pick\<close>; \<open>r\<close> is the address of the accumulator
  \<^verbatim>\<open>value\<close>. \<^verbatim>\<open>Reflect.get\<close> throws when a getter of the target does.\<close>

definition pick_step :: "addr \<Rightarrow> addr \<Rightarrow> store \<Rightarrow> key_arg \<Rightarrow> error + store" where
  "pick_step target r st key =
     (if Reflect_has (heap st) target (ToPropertyKey key)
      then (case Reflect_get (heap st) target (ToPropertyKey key) of
              Inl e \<Rightarrow> Inl e
            | Inr v \<Rightarrow>
                (case assign (heap st) (heap st r) (ToPropertyKey key) v of
                   Inl e \<Rightarrow> Inl e
                 | Inr ob \<Rightarrow> Inr (st\<lparr>heap := (heap st)(r := ob)\<rparr>)))
      else Inr st)"

fun pick_reduce :: "addr \<Rightarrow> addr \<Rightarrow> store \<Rightarrow> key_arg list \<Rightarrow> error + store" where
  "pick_reduce target r st [] = Inr st"
| "pick_reduce target r st (key # keys) =
     (case pick_step target r st key of
        Inl e \<Rightarrow> Inl e
      | Inr st' \<Rightarrow> pick_reduce target r st' keys)"

definition pick :: "store \<Rightarrow> addr \<Rightarrow> key_arg list \<Rightarrow> error + store \<times> addr" where
  "pick st target keys =
     (let r = fresh st;
          st0 = st\<lparr>heap := (heap st)(r := new_object st), fresh := Suc r\<rparr>
      in (case pick_reduce target r st0 keys of
            Inl e \<Rightarrow> Inl e
          | Inr st' \<Rightarrow> Inr (st', r)))"

definition omit :: "store \<Rightarrow> addr \<Rightarrow> key_arg list \<Rightarrow> error + store \<times> addr" where
  "omit st target keys =
     pick st target
       (filter (\<lambda>key. \<not> (key \<in> set keys)) (map key_value (Reflect_ownKeys (heap st) target)))"

text \<open>The own property that the object returned by a call has for a key, if the call
  returned and the object has one.\<close>

definition returned_entry :: "error + store \<times> addr \<Rightarrow> pkey \<Rightarrow> slot option" where
  "returned_entry res k = (case res of Inl e \<Rightarrow> None | Inr (st, r) \<Rightarrow> get_own (heap st r) k)"



subsection \<open>objectType\<close>






section \<open>Other utilities\<close>

subsection \<open>wrapArray\<close>




subsection \<open>padString\<close>


datatype position = Start | End




subsection \<open>clamp\<close>

text \<open>\<^verbatim>\<open>Math.max\<close> and \<^verbatim>\<open>Math.min\<close> of two numbers: \<open>NaN\<close> if either is.\<close>

definition Math_max :: "number \<Rightarrow> number \<Rightarrow> number" where
  "Math_max a b = (if a = NaN \<or> b = NaN then NaN else if num_le a b then b else a)"

definition Math_min :: "number \<Rightarrow> number \<Rightarrow> number" where
  "Math_min a b = (if a = NaN \<or> b = NaN then NaN else if num_le a b then a else b)"

definition clamp :: "number \<Rightarrow> number \<Rightarrow> number \<Rightarrow> number" where
  "clamp min' value max' = Math_min (Math_max value min') max'"

subsection \<open>pipe\<close>

text \<open>
  A function value is an address; \<open>fenv\<close> gives the function at an address as a map from
  the argument list to the result (a function that returns normally and leaves the store
  alone). Calling a value that is not a function throws.
\<close>

type_synonym fenv = "addr \<Rightarrow> val list \<Rightarrow> val"

definition invoke :: "fenv \<Rightarrow> val \<Rightarrow> val list \<Rightarrow> error + val" where
  "invoke fenv f args = (case f of Func a \<Rightarrow> Inr (fenv a args) | _ \<Rightarrow> Inl TypeError)"

text \<open>\<^verbatim>\<open>pipe(initialValue)\<close> returns a closure over \<open>initialValue\<close>. Called with no
  argument the closure returns the value, called with one it returns the next closure.\<close>

datatype pipe_carrying = PipeCarrying val

datatype pipe_return = Returned val | Carrying pipe_carrying | Thrown error

definition pipe :: "val \<Rightarrow> pipe_carrying" where
  "pipe initialValue = PipeCarrying initialValue"

fun call_pipe :: "fenv \<Rightarrow> pipe_carrying \<Rightarrow> val list \<Rightarrow> pipe_return" where
  "call_pipe fenv (PipeCarrying initialValue) transformers =
     (if length transformers = 0 then Returned initialValue
      else if \<not> isFunction (hd transformers) then Carrying (pipe initialValue)
      else (case invoke fenv (hd transformers) [initialValue] of
              Inr v \<Rightarrow> Carrying (pipe v)
            | Inl e \<Rightarrow> Thrown e))"

text \<open>The chain \<^verbatim>\<open>p(t1)(t2)\<dots>(tn)()\<close>.\<close>

fun chain :: "fenv \<Rightarrow> pipe_carrying \<Rightarrow> val list \<Rightarrow> pipe_return" where
  "chain fenv p [] = call_pipe fenv p []"
| "chain fenv p (t # ts) =
     (case call_pipe fenv p [t] of Carrying p' \<Rightarrow> chain fenv p' ts | r \<Rightarrow> r)"

text \<open>The specification's reading: the function steps, composed from left to right.\<close>

definition apply_step :: "fenv \<Rightarrow> val \<Rightarrow> val \<Rightarrow> val" where
  "apply_step fenv v f = (case f of Func a \<Rightarrow> fenv a [v] | _ \<Rightarrow> v)"

definition composition_of_function_steps :: "fenv \<Rightarrow> val \<Rightarrow> val list \<Rightarrow> val" where
  "composition_of_function_steps fenv v steps = foldl (apply_step fenv) v (filter isFunction steps)"

subsection \<open>Timers\<close>

text \<open>
  \<^verbatim>\<open>debounce\<close> and \<^verbatim>\<open>throttle\<close> run on the event loop of the host. Time is the
  millisecond clock \<^verbatim>\<open>Date.now()\<close>, a natural number. A pending timer is its id, the
  time at which it is due and what its callback captured; \<^verbatim>\<open>window.setTimeout\<close> hands
  out the ids 1, 2, \<dots> and a timer fires at the time it is due. The timers of one
  wrapper all have the same delay, so they are pending in the order in which they are due.
\<close>

type_synonym 'c timer = "nat \<times> nat \<times> 'c"

definition timer_id :: "'c timer \<Rightarrow> nat" where
  "timer_id tm = fst tm"

definition timer_due :: "'c timer \<Rightarrow> nat" where
  "timer_due tm = fst (snd tm)"

definition captured :: "'c timer \<Rightarrow> 'c" where
  "captured tm = snd (snd tm)"

definition clearTimeout :: "nat \<Rightarrow> 'c timer list \<Rightarrow> 'c timer list" where
  "clearTimeout i pending = filter (\<lambda>tm. timer_id tm \<noteq> i) pending"

subsubsection \<open>debounce\<close>

text \<open>
  A call of the debounced function: the time of the call, its arguments, and which of the
  two came first when a timer is due at the very time of the call. \<open>after_timers\<close> says
  that the timer has fired before the call; otherwise the call finds the timer pending
  and clears it, as it does when it comes in the same task as the call that set the timer.
\<close>

type_synonym 'a timed_call = "nat \<times> bool \<times> 'a"

definition call_time :: "'a timed_call \<Rightarrow> nat" where
  "call_time c = fst c"

definition after_timers :: "'a timed_call \<Rightarrow> bool" where
  "after_timers c = fst (snd c)"

definition call_args :: "'a timed_call \<Rightarrow> 'a" where
  "call_args c = snd (snd c)"

text \<open>The state of one debounced function: the variable \<^verbatim>\<open>timeout\<close>, the timers of the
  event loop, and the record of the calls of \<^verbatim>\<open>func\<close> (time and arguments).\<close>

record 'a debounced =
  timeout :: "nat option"
  d_pending :: "'a timer list"
  d_next_id :: nat
  d_invoked :: "(nat \<times> 'a) list"

definition debounce :: "'a debounced" where
  "debounce = \<lparr>timeout = None, d_pending = [], d_next_id = 1, d_invoked = []\<rparr>"

text \<open>The timers that have fired when a call is made at \<open>now\<close>.\<close>

definition fired :: "nat \<Rightarrow> bool \<Rightarrow> 'c timer \<Rightarrow> bool" where
  "fired now after tm = (timer_due tm < now \<or> (after \<and> timer_due tm = now))"

text \<open>The clock reaches \<open>now\<close>: these timers fire, each calling \<^verbatim>\<open>func(...args)\<close>.\<close>

definition d_advance :: "nat \<Rightarrow> bool \<Rightarrow> 'a debounced \<Rightarrow> 'a debounced" where
  "d_advance now after st =
     st\<lparr>d_pending := filter (\<lambda>tm. \<not> fired now after tm) (d_pending st),
        d_invoked := d_invoked st
           @ map (\<lambda>tm. (timer_due tm, captured tm)) (filter (fired now after) (d_pending st))\<rparr>"

text \<open>The body of the debounced function, called at time \<open>now\<close> with \<open>args\<close>.\<close>

definition debounced_body :: "nat \<Rightarrow> nat \<Rightarrow> 'a \<Rightarrow> 'a debounced \<Rightarrow> 'a debounced" where
  "debounced_body delay now args st =
     (let st1 = (case timeout st of
                   Some i \<Rightarrow> st\<lparr>d_pending := clearTimeout i (d_pending st)\<rparr>
                 | None \<Rightarrow> st);
          i = d_next_id st1
      in st1\<lparr>timeout := Some i,
             d_pending := d_pending st1 @ [(i, now + delay, args)],
             d_next_id := Suc i\<rparr>)"

definition debounced_call :: "nat \<Rightarrow> 'a debounced \<Rightarrow> 'a timed_call \<Rightarrow> 'a debounced" where
  "debounced_call delay st c =
     debounced_body delay (call_time c) (call_args c) (d_advance (call_time c) (after_timers c) st)"

text \<open>After the last call the clock runs on and every timer that is still pending fires.\<close>

definition d_finish :: "'a debounced \<Rightarrow> 'a debounced" where
  "d_finish st =
     st\<lparr>d_pending := [],
        d_invoked := d_invoked st @ map (\<lambda>tm. (timer_due tm, captured tm)) (d_pending st)\<rparr>"

text \<open>The calls of \<^verbatim>\<open>func\<close> that a sequence of timed calls of the debounced function
  leads to.\<close>

definition debounce_run :: "nat \<Rightarrow> 'a timed_call list \<Rightarrow> (nat \<times> 'a) list" where
  "debounce_run delay calls = d_invoked (d_finish (foldl (debounced_call delay) debounce calls))"




subsubsection \<open>throttle\<close>

text \<open>The state of one throttled function. A timer's callback captured \<^verbatim>\<open>args\<close> and
  the \<^verbatim>\<open>now\<close> of the call that set it.\<close>

record 'a throttled =
  previous :: "nat option"
  defineTimer :: "nat option"
  t_pending :: "('a \<times> nat) timer list"
  t_next_id :: nat
  t_invoked :: "(nat \<times> 'a) list"

definition throttle :: "'a throttled" where
  "throttle = \<lparr>previous = None, defineTimer = None, t_pending = [], t_next_id = 1, t_invoked = []\<rparr>"

text \<open>A timer fires: \<^verbatim>\<open>func(...args); previous = now\<close>, with the captured \<^verbatim>\<open>now\<close>.
  In this model a timer that is due at the time of a call fires before the call.\<close>

definition t_fire :: "'a throttled \<Rightarrow> ('a \<times> nat) timer \<Rightarrow> 'a throttled" where
  "t_fire st tm =
     st\<lparr>t_invoked := t_invoked st @ [(timer_due tm, fst (captured tm))],
        previous := Some (snd (captured tm))\<rparr>"

definition t_advance :: "nat \<Rightarrow> 'a throttled \<Rightarrow> 'a throttled" where
  "t_advance now st =
     foldl t_fire (st\<lparr>t_pending := filter (\<lambda>tm. now < timer_due tm) (t_pending st)\<rparr>)
       (filter (\<lambda>tm. timer_due tm \<le> now) (t_pending st))"

text \<open>The body of the throttled function. \<^verbatim>\<open>previous &&\<close> and \<^verbatim>\<open>defineTimer &&\<close> test
  for a number that is neither missing nor zero.\<close>

definition throttled_body :: "nat \<Rightarrow> nat \<Rightarrow> 'a \<Rightarrow> 'a throttled \<Rightarrow> 'a throttled" where
  "throttled_body delay now args st =
     (if (case previous st of Some p \<Rightarrow> p \<noteq> 0 \<and> now < p + delay | None \<Rightarrow> False) then
        (let st1 = (case defineTimer st of
                      Some i \<Rightarrow> if i \<noteq> 0 then st\<lparr>t_pending := clearTimeout i (t_pending st)\<rparr> else st
                    | None \<Rightarrow> st);
             i = t_next_id st1
         in st1\<lparr>defineTimer := Some i,
                t_pending := t_pending st1 @ [(i, now + delay, (args, now))],
                t_next_id := Suc i\<rparr>)
      else st\<lparr>t_invoked := t_invoked st @ [(now, args)], previous := Some now\<rparr>)"

definition throttled_call :: "nat \<Rightarrow> 'a throttled \<Rightarrow> nat \<times> 'a \<Rightarrow> 'a throttled" where
  "throttled_call delay st c = throttled_body delay (fst c) (snd c) (t_advance (fst c) st)"

definition t_finish :: "'a throttled \<Rightarrow> 'a throttled" where
  "t_finish st = foldl t_fire (st\<lparr>t_pending := []\<rparr>) (t_pending st)"

definition throttle_run :: "nat \<Rightarrow> (nat \<times> 'a) list \<Rightarrow> (nat \<times> 'a) list" where
  "throttle_run delay calls = t_invoked (t_finish (foldl (throttled_call delay) throttle calls))"

text \<open>No two of the given times, listed in order, lie within one window of length \<open>d\<close>.\<close>

fun once_per_window :: "nat \<Rightarrow> nat list \<Rightarrow> bool" where
  "once_per_window d (t # t' # ts) = (t + d \<le> t' \<and> once_per_window d (t' # ts))"
| "once_per_window d ts = True"

subsection \<open>wait\<close>



section \<open>Hooks\<close>

text \<open>
  A hook keeps its cells in the component instance: the state below is what React holds
  for one instance between renders, and a render is a function from that state to the
  value the hook returns and the next state. \<^verbatim>\<open>useRef()\<close> gives the same ref object on
  every render of the instance, with \<^verbatim>\<open>current\<close> undefined at first.
\<close>

subsection \<open>useConstant\<close>

text \<open>
  \<open>init\<close> is a function of the program and may have effects: it takes the state \<open>'w\<close> of
  the program to its result and the next state. The hook state is \<^verbatim>\<open>ref.current\<close>.
\<close>

definition useConstant :: "('w \<Rightarrow> val \<times> 'w) \<Rightarrow> val \<times> 'w \<Rightarrow> val \<times> (val \<times> 'w)" where
  "useConstant init st =
     (case st of (current, w) \<Rightarrow>
        if \<not> truthy current then (case init w of (v, w') \<Rightarrow> (v, (v, w')))
        else (current, (current, w)))"

text \<open>The values returned by \<open>n\<close> renders of one instance, and the state after them.\<close>

fun constant_renders :: "('w \<Rightarrow> val \<times> 'w) \<Rightarrow> nat \<Rightarrow> val \<times> 'w \<Rightarrow> val list \<times> (val \<times> 'w)" where
  "constant_renders init 0 st = ([], st)"
| "constant_renders init (Suc n) st =
     (case useConstant init st of (v, st') \<Rightarrow>
        (case constant_renders init n st' of (vs, st'') \<Rightarrow> (v # vs, st'')))"

text \<open>\<^verbatim>\<open>let n = 0; const init = () => n++\<close>: the program state is \<open>n\<close>, which also counts
  the calls.\<close>

definition counting_init :: "nat \<Rightarrow> val \<times> nat" where
  "counting_init n = (Num (Fin (real n)), Suc n)"

subsection \<open>useLatestRef and useLatestFunc\<close>

text \<open>
  The cells of one instance: \<^verbatim>\<open>ref.current\<close>, the memo of \<^verbatim>\<open>useCallback\<close> (the
  function it kept and the dependencies it was kept for) and the number of renders so
  far. Every render creates a new closure \<^verbatim>\<open>(...args) => ref.current!(...args)\<close>; the
  closure of render \<open>k\<close> has the identity \<open>k\<close>. The one dependency is the ref object,
  whose identity is \<open>ref_object\<close>.
\<close>

record latest =
  l_current :: val
  l_memo :: "(nat \<times> nat list) option"
  l_renders :: nat

definition mount :: latest where
  "mount = \<lparr>l_current = Undefined, l_memo = None, l_renders = 0\<rparr>"

definition ref_object :: nat where
  "ref_object = 0"

definition useLatestRef :: "val \<Rightarrow> latest \<Rightarrow> nat \<times> latest" where
  "useLatestRef value st = (ref_object, st\<lparr>l_current := value\<rparr>)"

text \<open>\<^verbatim>\<open>useCallback(fn, deps)\<close> returns the function it kept if the dependencies are the
  ones it was kept for, and keeps \<open>fn\<close> otherwise.\<close>

definition useCallback :: "nat \<Rightarrow> nat list \<Rightarrow> latest \<Rightarrow> nat \<times> latest" where
  "useCallback fn deps st =
     (case l_memo st of
        Some (kept, deps') \<Rightarrow> if deps' = deps then (kept, st) else (fn, st\<lparr>l_memo := Some (fn, deps)\<rparr>)
      | None \<Rightarrow> (fn, st\<lparr>l_memo := Some (fn, deps)\<rparr>))"

text \<open>The result of \<^verbatim>\<open>useLatestFunc\<close> is \<open>Some\<close> closure or \<open>None\<close> for \<^verbatim>\<open>undefined\<close>.\<close>

definition useLatestFunc :: "val \<Rightarrow> latest \<Rightarrow> nat option \<times> latest" where
  "useLatestFunc func st =
     (case useLatestRef func st of (ref, st1) \<Rightarrow>
        (case useCallback (l_renders st1) [ref] st1 of (apply, st2) \<Rightarrow>
           ((if truthy (l_current st2) then Some apply else None),
            st2\<lparr>l_renders := Suc (l_renders st2)\<rparr>)))"

text \<open>Calling any of the closures: \<^verbatim>\<open>ref.current!(...args)\<close>.\<close>

definition call_apply :: "fenv \<Rightarrow> latest \<Rightarrow> val list \<Rightarrow> error + val" where
  "call_apply fenv st args = invoke fenv (l_current st) args"

text \<open>The renders of one instance with the given \<open>func\<close> arguments: the results and the
  state after the last render.\<close>

fun latest_renders :: "val list \<Rightarrow> latest \<Rightarrow> nat option list \<times> latest" where
  "latest_renders [] st = ([], st)"
| "latest_renders (func # funcs) st =
     (case useLatestFunc func st of (r, st') \<Rightarrow>
        (case latest_renders funcs st' of (rs, st'') \<Rightarrow> (r # rs, st'')))"

section \<open>The exported functions\<close>






section \<open>Example inputs\<close>

text \<open>An object whose one field is \<open>NaN\<close>, at every address: \<^verbatim>\<open>{ a: NaN }\<close>.\<close>

definition nan_field_heap :: heap where
  "nan_field_heap = (\<lambda>a. \<lparr>own = [Prop (StrKey ''a'') (Data (Num NaN)) True], inherited = [],
                           is_array = False, proto = ObjectPrototype,
                           builtin_tag = ''Object'', instance_of_Date = False\<rparr>)"



text \<open>An object without own keys whose prototype is not \<^verbatim>\<open>Object.prototype\<close>, as
  \<^verbatim>\<open>new Date()\<close> is.\<close>

definition date_heap :: heap where
  "date_heap = (\<lambda>a. \<lparr>own = [], inherited = [], is_array = False, proto = OtherPrototype 7,
                      builtin_tag = ''Date'', instance_of_Date = True\<rparr>)"

text \<open>The properties of \<^verbatim>\<open>Object.prototype\<close> in the examples: the accessor
  \<^verbatim>\<open>__proto__\<close> and the method \<^verbatim>\<open>toString\<close>.\<close>

definition standard_object_prototype :: "(pkey \<times> slot) list" where
  "standard_object_prototype =
     [(StrKey ''__proto__'', Accessor (Inr (Ref 99)) True), (StrKey ''toString'', Data (Func 100))]"

text \<open>The object \<^verbatim>\<open>{ 1: 'x', 2: 'y' }\<close> at address 0.\<close>

definition indexed_store :: store where
  "indexed_store =
     \<lparr>heap = (\<lambda>a. \<lparr>own = [Prop (StrKey ''1'') (Data (Str ''x'')) True,
                           Prop (StrKey ''2'') (Data (Str ''y'')) True],
                    inherited = standard_object_prototype,
                    is_array = False, proto = ObjectPrototype,
                    builtin_tag = ''Object'', instance_of_Date = False\<rparr>),
      fresh = 1,
      object_prototype = standard_object_prototype,
      array_prototype = []\<rparr>"

text \<open>The object that \<^verbatim>\<open>JSON.parse('{"__proto__": "x", "a": 1}')\<close> returns, which has an
  own data property \<^verbatim>\<open>__proto__\<close>, at address 0.\<close>

definition parsed_store :: store where
  "parsed_store =
     \<lparr>heap = (\<lambda>a. \<lparr>own = [Prop (StrKey ''__proto__'') (Data (Str ''x'')) True,
                           Prop (StrKey ''a'') (Data (Num (Fin 1))) True],
                    inherited = standard_object_prototype,
                    is_array = False, proto = ObjectPrototype,
                    builtin_tag = ''Object'', instance_of_Date = False\<rparr>),
      fresh = 1,
      object_prototype = standard_object_prototype,
      array_prototype = []\<rparr>"



text \<open>Functions that return their own address, whatever the arguments.\<close>

definition naming_fenv :: fenv where
  "naming_fenv = (\<lambda>a args. Num (Fin (real a)))"


section \<open>Properties of isEquals\<close>

lemma strict_eq_refl: "x \<noteq> Num NaN \<Longrightarrow> strict_eq x x"
  by (cases x) auto


lemma for_keys_mono:
  "for_keys rec h a b ks = Some r
     \<Longrightarrow> (\<And>u v r'. rec u v = Some r' \<Longrightarrow> rec' u v = Some r')
     \<Longrightarrow> for_keys rec' h a b ks = Some r"
  by (induction ks) (auto split: option.splits bool.splits if_splits sum.splits)

text \<open>A result does not depend on how much more stack there is.\<close>

lemma isEquals_fuel_Suc: "isEquals n h x y = Some r \<Longrightarrow> isEquals (Suc n) h x y = Some r"
proof (induction n arbitrary: x y r)
  case 0
  then show ?case by simp
next
  case (Suc n)
  show ?case
  proof (cases "\<exists>a b. x = Ref a \<and> y = Ref b \<and> a \<noteq> b
                  \<and> length (Object_keys h x) = length (Object_keys h y)")
    case True
    then obtain a b where xy: "x = Ref a" "y = Ref b" "a \<noteq> b"
      "length (Object_keys h x) = length (Object_keys h y)" by blast
    with Suc.prems have "for_keys (isEquals n h) h a b (Object_keys h x) = Some r"
      by (simp add: Let_def)
    then have "for_keys (isEquals (Suc n) h) h a b (Object_keys h x) = Some r"
      by (rule for_keys_mono) (rule Suc.IH)
    with xy show ?thesis by (simp add: Let_def)
  next
    case False
    with Suc.prems show ?thesis
      by (cases x; cases y) (auto simp: Let_def split: if_splits)
  qed
qed

lemma isEquals_fuel_mono:
  assumes "n \<le> m" and "isEquals n h x y = Some r"
  shows "isEquals m h x y = Some r"
  using assms by (induction rule: dec_induct) (simp_all only: isEquals_fuel_Suc)








text \<open>
  C2, as the claim states it, fails at \<open>NaN\<close>: \<^verbatim>\<open>NaN === NaN\<close> is false, both arguments
  have the type \<^verbatim>\<open>number\<close>, and the branch for values that are not objects returns the
  result of \<^verbatim>\<open>x === y\<close> again.
\<close>

theorem isEquals_NaN_not_reflexive:
  "isEquals (Suc 0) nan_field_heap (Num NaN) (Num NaN) = Some False"
  by simp

text \<open>
  C2, amended: \<open>isEquals(x, x)\<close> returns true, through the identity test in its first
  line, for every value \<open>x\<close> other than the number \<open>NaN\<close>; this includes every object,
  also one with fields that are \<open>NaN\<close> and one that is part of a cycle, since an object
  is identical to itself.
\<close>

theorem isEquals_reflexive:
  "x \<noteq> Num NaN \<Longrightarrow> isEquals (Suc n) h x x = Some True"
  by (simp add: strict_eq_refl)

theorem isEquals_reflexive_witness:
  "Ref 0 \<noteq> Num NaN \<and> isEquals (Suc 0) nan_field_heap (Ref 0) (Ref 0) = Some True"
  using isEquals_reflexive [of "Ref 0" 0 nan_field_heap] by simp

section \<open>Properties of isEmpty\<close>

lemma trim_white_space:
  assumes "list_all is_white_space s"
  shows "trim s = []"
proof -
  from assms have "dropWhile is_white_space s = []"
    by (simp add: list_all_iff dropWhile_eq_Nil_conv)
  then show ?thesis
    by (simp only: trim_def rev.simps dropWhile.simps)
qed

text \<open>
  C10: \<open>isEmpty\<close> is true on every string that consists of white space only, and false on
  every object that is not an array and whose prototype is not \<^verbatim>\<open>Object.prototype\<close>,
  whatever its own keys are.
\<close>

theorem isEmpty_white_space_and_other_objects:
  "(list_all is_white_space s \<longrightarrow> isEmpty h (Str s)) \<and>
   (\<not> is_array (h a) \<and> proto (h a) \<noteq> ObjectPrototype \<longrightarrow> \<not> isEmpty h (Ref a))"
  by (simp add: isEmpty_def Array_isArray_def isPlainObject_def isObject_def isString_def
       Reflect_getPrototypeOf_def trim_white_space)

theorem isEmpty_white_space_and_other_objects_witness:
  "list_all is_white_space '' '' \<and> isEmpty date_heap (Str '' '')
   \<and> \<not> is_array (date_heap 0) \<and> proto (date_heap 0) \<noteq> ObjectPrototype
   \<and> own (date_heap 0) = [] \<and> \<not> isEmpty date_heap (Ref 0)"
proof -
  have ws: "list_all is_white_space '' ''"
    by (simp add: is_white_space_def)
  have ob: "\<not> is_array (date_heap 0) \<and> proto (date_heap 0) \<noteq> ObjectPrototype"
    by (simp add: date_heap_def)
  have "own (date_heap 0) = []"
    by (simp add: date_heap_def)
  with ws ob show ?thesis
    using isEmpty_white_space_and_other_objects [of "'' ''" date_heap 0] by blast
qed

section \<open>Properties of clamp\<close>

text \<open>
  C8, as the claim states it, fails when \<open>value\<close> is \<open>NaN\<close>: \<^verbatim>\<open>Math.max\<close> and
  \<^verbatim>\<open>Math.min\<close> return \<open>NaN\<close>, which lies in no interval.
\<close>

theorem clamp_NaN_outside_interval:
  "num_le (Fin 0) (Fin 1)
   \<and> \<not> (num_le (Fin 0) (clamp (Fin 0) NaN (Fin 1)) \<and> num_le (clamp (Fin 0) NaN (Fin 1)) (Fin 1))"
  by (simp add: clamp_def Math_max_def Math_min_def)

text \<open>
  C8, amended: for all numbers with \<open>min \<le> max\<close>, \<open>clamp(min, value, max)\<close> returns \<open>min\<close>
  when \<open>value < min\<close>, \<open>max\<close> when \<open>value > max\<close>, and \<open>value\<close> otherwise; when \<open>value\<close> is
  not \<open>NaN\<close> the result lies in the closed interval from \<open>min\<close> to \<open>max\<close>.
\<close>

theorem clamp_cases_and_range:
  "num_le min' max' \<Longrightarrow>
   clamp min' value max'
     = (if num_lt value min' then min' else if num_lt max' value then max' else value)
   \<and> (value \<noteq> NaN \<longrightarrow>
        num_le min' (clamp min' value max') \<and> num_le (clamp min' value max') max')"
  by (cases min'; cases max'; cases "value") (auto simp: clamp_def Math_max_def Math_min_def)

theorem clamp_cases_and_range_witness:
  "num_le (Fin 0) (Fin 7) \<and> clamp (Fin 0) (Fin 3) (Fin 7) = Fin 3 \<and> Fin 3 \<noteq> NaN
   \<and> num_le (Fin 0) (clamp (Fin 0) (Fin 3) (Fin 7)) \<and> num_le (clamp (Fin 0) (Fin 3) (Fin 7)) (Fin 7)"
proof -
  have h: "num_le (Fin 0) (Fin 7)" by simp
  show ?thesis
    using h clamp_cases_and_range [OF h, of "Fin 3"] by simp
qed

section \<open>Properties of pipe\<close>

lemma chain_carrying:
  "chain fenv (PipeCarrying v) steps
     = Returned (foldl (apply_step fenv) v (filter isFunction steps))"
proof (induction steps arbitrary: v)
  case Nil
  then show ?case by simp
next
  case (Cons t ts)
  then show ?case
    by (cases t) (simp_all add: isFunction_def pipe_def invoke_def apply_step_def)
qed

text \<open>
  C7: a pipe chain that ends with the empty call returns the composition, from left to
  right, of the steps that are functions, applied to the initial value; every other step
  (so \<^verbatim>\<open>undefined\<close>, \<^verbatim>\<open>null\<close> and \<^verbatim>\<open>false\<close>) is skipped. In particular
  \<open>pipe(v)() = v\<close> and \<open>pipe(v)(f)() = f(v)\<close>.
\<close>

theorem pipe_chain_composes:
  "chain fenv (pipe v) steps = Returned (composition_of_function_steps fenv v steps)
   \<and> chain fenv (pipe v) [] = Returned v
   \<and> chain fenv (pipe v) [Func f] = Returned (fenv f [v])"
  by (simp add: pipe_def chain_carrying composition_of_function_steps_def isFunction_def
       apply_step_def invoke_def)

section \<open>Properties of throttle\<close>

text \<open>
  C3: with a delay of 100, the throttled function is called at the times 1000, 1050 and
  1120. The first call runs the callback at once. The second sets a timer for 1150. The
  third comes 120 after the last run, so it runs the callback at once as well, and it
  leaves the timer pending: the callback runs again at 1150, 30 after the run before.
\<close>

theorem throttle_runs_twice_in_window:
  "throttle_run 100 [(1000, ''a''), (1050, ''b''), (1120, ''c'')]
     = [(1000, ''a''), (1120, ''c''), (1150, ''b'')]
   \<and> \<not> once_per_window 100
         (map fst (throttle_run 100 [(1000, ''a''), (1050, ''b''), (1120, ''c'')]))"
  by (simp add: throttle_run_def throttled_call_def throttled_body_def t_advance_def
       t_finish_def t_fire_def throttle_def clearTimeout_def timer_due_def timer_id_def
       captured_def Let_def)

section \<open>Properties of useConstant\<close>

text \<open>When the first call of \<open>init\<close> returns a truthy value, that call is the only one
  and every render returns its result.\<close>

lemma constant_renders_kept:
  "truthy v \<Longrightarrow> constant_renders init n (v, w) = (replicate n v, (v, w))"
  by (induction n) (simp_all add: useConstant_def)

lemma useConstant_truthy_once:
  assumes "truthy (fst (init w))"
  shows "constant_renders init (Suc n) (Undefined, w)
           = (replicate (Suc n) (fst (init w)), (fst (init w), snd (init w)))"
proof -
  obtain v w' where i: "init w = (v, w')" by (cases "init w")
  with assms have "truthy v" by simp
  then have "constant_renders init n (v, w') = (replicate n v, (v, w'))"
    by (rule constant_renders_kept)
  with i show ?thesis by (simp add: useConstant_def)
qed

text \<open>
  C1: with \<^verbatim>\<open>let n = 0; useConstant(() => n++)\<close> the first render calls \<open>init\<close> and
  returns 0. The cell then holds 0, which \<^verbatim>\<open>!ref.current\<close> takes for a cell that is
  not initialised: the second render calls \<open>init\<close> again and returns 1.
\<close>

theorem useConstant_falsy_value_calls_init_again:
  "constant_renders counting_init 2 (Undefined, 0)
     = ([Num (Fin 0), Num (Fin 1)], (Num (Fin 1), 2))"
  by (simp add: numeral_2_eq_2 useConstant_def counting_init_def)

section \<open>Properties of useLatestFunc\<close>

text \<open>Once \<^verbatim>\<open>useCallback\<close> has kept a closure for the ref object, every render returns
  that closure or \<^verbatim>\<open>undefined\<close>, and leaves the last \<open>func\<close> in the ref.\<close>

lemma latest_renders_kept:
  "l_memo st = Some (k, [ref_object]) \<Longrightarrow>
   latest_renders funcs st =
     (map (\<lambda>f. if truthy f then Some k else None) funcs,
      st\<lparr>l_current := last (l_current st # funcs), l_renders := l_renders st + length funcs\<rparr>)"
proof (induction funcs arbitrary: st)
  case Nil
  then show ?case by simp
next
  case (Cons f fs)
  have step: "useLatestFunc f st
      = ((if truthy f then Some k else None), st\<lparr>l_current := f, l_renders := Suc (l_renders st)\<rparr>)"
    using Cons.prems by (simp add: useLatestFunc_def useLatestRef_def useCallback_def)
  have "l_memo (st\<lparr>l_current := f, l_renders := Suc (l_renders st)\<rparr>) = Some (k, [ref_object])"
    using Cons.prems by simp
  from Cons.IH [OF this] step show ?case by simp
qed

lemma latest_renders_mount:
  assumes "funcs \<noteq> []"
  shows "latest_renders funcs mount =
     (map (\<lambda>f. if truthy f then Some 0 else None) funcs,
      \<lparr>l_current = last funcs, l_memo = Some (0, [ref_object]), l_renders = length funcs\<rparr>)"
proof (cases funcs)
  case Nil
  with assms show ?thesis by simp
next
  case (Cons f fs)
  have step: "useLatestFunc f mount
      = ((if truthy f then Some 0 else None),
         \<lparr>l_current = f, l_memo = Some (0, [ref_object]), l_renders = Suc 0\<rparr>)"
    by (simp add: useLatestFunc_def useLatestRef_def useCallback_def mount_def)
  have "l_memo \<lparr>l_current = f, l_memo = Some (0, [ref_object]), l_renders = Suc 0\<rparr>
          = Some (0, [ref_object])"
    by simp
  from latest_renders_kept [OF this, of fs] step Cons show ?thesis by simp
qed

lemma truthy_func: "isFunction f \<or> f = Undefined \<Longrightarrow> truthy f = (f \<noteq> Undefined)"
  by (cases f) (auto simp: isFunction_def)

text \<open>
  C9: over the renders of one instance, with a \<open>func\<close> that is a function or
  \<^verbatim>\<open>undefined\<close> on each, \<open>useLatestFunc\<close> returns \<^verbatim>\<open>undefined\<close> exactly on the renders
  where \<open>func\<close> is \<^verbatim>\<open>undefined\<close> and one and the same closure (the one the first render
  created) on all others; calling that closure after the renders is calling the \<open>func\<close>
  of the most recent render with the arguments given.
\<close>

theorem useLatestFunc_stable_and_latest:
  assumes "\<forall>f \<in> set funcs. isFunction f \<or> f = Undefined" and "funcs \<noteq> []"
  shows "length (fst (latest_renders funcs mount)) = length funcs
     \<and> (\<forall>i < length funcs.
          fst (latest_renders funcs mount) ! i = (if funcs ! i = Undefined then None else Some 0))
     \<and> call_apply fenv (snd (latest_renders funcs mount)) args = invoke fenv (last funcs) args"
  using assms by (simp add: latest_renders_mount call_apply_def truthy_func)

theorem useLatestFunc_stable_and_latest_witness:
  "list_all (\<lambda>f. isFunction f \<or> f = Undefined) [Func 1, Undefined, Func 2]
   \<and> [Func 1, Undefined, Func 2] \<noteq> []
   \<and> fst (latest_renders [Func 1, Undefined, Func 2] mount) ! 0 = Some 0
   \<and> fst (latest_renders [Func 1, Undefined, Func 2] mount) ! 1 = None
   \<and> fst (latest_renders [Func 1, Undefined, Func 2] mount) ! 2 = Some 0
   \<and> call_apply naming_fenv (snd (latest_renders [Func 1, Undefined, Func 2] mount)) []
       = Inr (Num (Fin 2))"
proof -
  have h: "\<forall>f \<in> set [Func 1, Undefined, Func 2]. isFunction f \<or> f = Undefined"
    by (simp add: isFunction_def)
  have n: "[Func 1, Undefined, Func 2] \<noteq> []"
    by simp
  note t = useLatestFunc_stable_and_latest [OF h n, of naming_fenv "[]"]
  from t have r: "\<forall>i < 3. fst (latest_renders [Func 1, Undefined, Func 2] mount) ! i
                    = (if [Func 1, Undefined, Func 2] ! i = Undefined then None else Some 0)"
    by simp
  have r0: "fst (latest_renders [Func 1, Undefined, Func 2] mount) ! 0 = Some 0"
    using r [rule_format, of 0] by simp
  have r1: "fst (latest_renders [Func 1, Undefined, Func 2] mount) ! 1 = None"
    using r [rule_format, of 1] by simp
  have r2: "fst (latest_renders [Func 1, Undefined, Func 2] mount) ! 2 = Some 0"
    using r [rule_format, of 2] by simp
  have "invoke naming_fenv (last [Func 1, Undefined, Func 2]) [] = Inr (Num (Fin 2))"
    by (simp add: invoke_def naming_fenv_def)
  with t have c: "call_apply naming_fenv (snd (latest_renders [Func 1, Undefined, Func 2] mount)) []
                    = Inr (Num (Fin 2))"
    by simp
  have l: "list_all (\<lambda>f. isFunction f \<or> f = Undefined) [Func 1, Undefined, Func 2]"
    by (simp add: isFunction_def)
  from l n r0 r1 r2 c show ?thesis by blast
qed

section \<open>Properties of debounce\<close>







text \<open>At the very time at which the timer is due the outcome depends on which comes first:
  a call that finds the timer pending clears it, and the callback does not run for the
  call before. With a delay of 0 two calls of one task are such a pair.\<close>

lemma debounce_at_the_due_time:
  "debounce_run 100 [(0, False, 1::nat), (100, False, 2)] = [(200, 2)]"
  "debounce_run 100 [(0, False, 1::nat), (100, True, 2)] = [(100, 1), (200, 2)]"
  "debounce_run 0 [(0, False, 1::nat), (0, False, 2), (5, False, 3)] = [(0, 2), (5, 3)]"
  by (simp_all add: debounce_run_def debounced_call_def debounced_body_def d_advance_def
      debounce_def d_finish_def fired_def clearTimeout_def timer_id_def timer_due_def
      captured_def call_time_def after_timers_def call_args_def Let_def)

section \<open>Properties of pick and omit\<close>

lemmas pick_eval = omit_def pick_def pick_step_def Reflect_ownKeys_def Reflect_has_def
  Reflect_get_def get_own_def assign_def new_object_def returned_entry_def Let_def
  decimal.simps standard_object_prototype_def

text \<open>
  C6: \<^verbatim>\<open>omit({ 1: 'x', 2: 'y' }, [1])\<close>. The own keys of the object are the strings
  \<^verbatim>\<open>'1'\<close> and \<^verbatim>\<open>'2'\<close>; \<^verbatim>\<open>keys.includes\<close> compares them with the number 1 and
  finds neither in the list, so \<open>omit\<close> omits nothing: its result has the key 1, the key
  that it was asked to leave out and that \<open>pick\<close> of the same list selects.
\<close>

theorem omit_keeps_number_key:
  "returned_entry (omit indexed_store 0 [KeyNum 1]) (StrKey ''1'') = Some (Data (Str ''x''))
   \<and> returned_entry (pick indexed_store 0 [KeyNum 1]) (StrKey ''1'') = Some (Data (Str ''x''))"
  by (simp add: pick_eval indexed_store_def)

text \<open>Given as the string, the key is left out.\<close>

lemma omit_leaves_string_key_out:
  "returned_entry (omit indexed_store 0 [KeyStr ''1'']) (StrKey ''1'') = None
   \<and> returned_entry (omit indexed_store 0 [KeyStr ''1'']) (StrKey ''2'') = Some (Data (Str ''y''))"
  by (simp add: pick_eval indexed_store_def)

text \<open>An own property \<^verbatim>\<open>__proto__\<close> is not copied: the assignment runs the setter that
  the new object inherits, which ignores a string.\<close>

lemma pick_loses_proto_key:
  "returned_entry (pick parsed_store 0 [KeyStr ''__proto__'', KeyStr ''a'']) (StrKey ''__proto__'') = None
   \<and> returned_entry (pick parsed_store 0 [KeyStr ''__proto__'', KeyStr ''a'']) (StrKey ''a'')
       = Some (Data (Num (Fin 1)))"
  by (simp add: pick_eval parsed_store_def)

section \<open>Totality of the exported functions\<close>


lemma Reflect_get_cong: "h' a = h a \<Longrightarrow> Reflect_get h' a k = Reflect_get h a k"
  by (simp add: Reflect_get_def split: option.splits)













end
